theory Spec2Isabelle
  imports Complex_Main
begin

section \<open>Data model of the HR app\<close>

text \<open>
  The embedding follows the class \<open>HRApp\<close> (first listing of the source file). JavaScript
  numbers (latitudes, longitudes, distances) are modelled as real numbers, so the
  theorems about distances speak about exact arithmetic; timestamps (\<open>Date.now()\<close>) are
  natural numbers. A JSON property that is \<open>null\<close> or missing is \<open>None\<close>.
\<close>

record position =
  pos_lat :: real
  pos_lng :: real

record site =
  site_id :: string
  site_name :: string
  site_lat :: real
  site_lng :: real

record employee_summary =
  emp_username :: string
  emp_contact :: string
  emp_assignedSiteId :: string

record log_entry =
  log_username :: string
  log_action :: string
  log_time :: string

record company =
  co_name :: "string option"
  co_sites :: "site list"
  co_employees :: "employee_summary list"
  co_logs :: "log_entry list"

datatype role = Manager | Employee

datatype status = CheckedIn | CheckedOut

record history_point =
  hp_lat :: real
  hp_lng :: real
  hp_time :: string
  hp_siteId :: string

record user =
  u_role :: role
  u_companyId :: "string option"
  u_email :: "string option"
  u_phone :: "string option"
  u_passcode :: "string option"
  u_assignedSiteId :: "string option"
  u_status :: "status option"
  u_checkInTime :: "nat option"
  u_lastPing :: "nat option"
  u_verified :: "bool option"
  u_verifyCode :: "string option"
  u_history :: "history_point list option"

text \<open>\<open>currentUser\<close> and \<open>pendingUser\<close> are built as \<open>{ username, ...user }\<close>: the username
  together with a copy of the user record taken at that moment.\<close>

record session =
  s_username :: string
  s_user :: user

text \<open>The in-memory state: \<open>mockDB.companies\<close>, \<open>mockDB.users\<close>, the session fields, the
  last position and the history timer set by \<open>checkIn\<close> (the site id it samples for).\<close>

record app =
  companies :: "string \<rightharpoonup> company"
  users :: "string \<rightharpoonup> user"
  currentUser :: "session option"
  pendingUser :: "session option"
  currentPosition :: "position option"
  trackingInterval :: "string option"

text \<open>What the environment supplies to one call: \<open>Date.now()\<close>,
  \<open>new Date().toLocaleTimeString()\<close> and \<open>new Date().toLocaleString()\<close>.\<close>

record clock =
  clk_now :: nat
  clk_localeTimeString :: string
  clk_localeString :: string

datatype alert =
    FillAllFields
  | ManagerUsernameTaken
  | EnterAUsername
  | ProvideEmailOrPhone
  | UsernameTaken
  | InvalidCode
  | EnterYourUsername
  | UserNotFound
  | NoCompanyIdYet
  | IncorrectCompanyId "string option"
  | PasscodeRequired
  | InvalidPasscode
  | NotLinkedToCompany
  | DetectingLocation
  | AssignedWorksiteNotFound
  | AccessDenied int string
  | EnterASiteName
  | WaitingForGps
  | NullIsland
  | BelongsToAnotherCompany
  | GpsNotAvailable
  | WorksiteDeletedOrNotFound
  | TooFarFromSite string int
  | GeofenceAutoCheckOut int
  | DebugAutoLogout string

text \<open>How a call ends: it runs to its end, returns early without a message, shows the
  verification view, stops at an \<open>alert\<close>, or dies of an uncaught \<open>TypeError\<close> (a property
  read on \<open>undefined\<close> or \<open>null\<close>).\<close>

datatype outcome = Done | Returned | ShowVerify | Alerted alert | Uncaught_TypeError

section \<open>Distance calculator\<close>

definition MAX_DISTANCE_METERS :: real where
  "MAX_DISTANCE_METERS = 100"

definition deg2rad :: "real \<Rightarrow> real" where
  "deg2rad deg = deg * (pi / 180)"

text \<open>\<open>Math.atan2(y, x)\<close> on real arguments.\<close>

definition atan2 :: "real \<Rightarrow> real \<Rightarrow> real" where
  "atan2 y x =
     (if 0 < x then arctan (y / x)
      else if x < 0 then (if 0 \<le> y then arctan (y / x) + pi else arctan (y / x) - pi)
      else if 0 < y then pi / 2
      else if y < 0 then - (pi / 2)
      else 0)"

definition getDistanceFromLatLonInMeters :: "real \<Rightarrow> real \<Rightarrow> real \<Rightarrow> real \<Rightarrow> real" where
  "getDistanceFromLatLonInMeters lat1 lon1 lat2 lon2 =
     (let R = 6371;
          dLat = deg2rad (lat2 - lat1);
          dLon = deg2rad (lon2 - lon1);
          a = sin (dLat / 2) * sin (dLat / 2) +
              cos (deg2rad lat1) * cos (deg2rad lat2) * sin (dLon / 2) * sin (dLon / 2);
          c = 2 * atan2 (sqrt a) (sqrt (1 - a));
          d = R * c
      in d * 1000)"

text \<open>The haversine formula as the specification words it: great-circle distance
  \<open>2 R arcsin (sqrt (sin\<^sup>2 (\<Delta>\<phi>/2) + cos \<phi>\<^sub>1 cos \<phi>\<^sub>2 sin\<^sup>2 (\<Delta>\<lambda>/2)))\<close> with \<open>R\<close> = 6371 km,
  angles converted by \<open>deg * \<pi>/180\<close>, result in meters.\<close>

definition spec_haversine_meters :: "real \<Rightarrow> real \<Rightarrow> real \<Rightarrow> real \<Rightarrow> real" where
  "spec_haversine_meters lat1 lon1 lat2 lon2 =
     1000 * (2 * 6371 *
       arcsin (sqrt ((sin ((lat2 - lat1) * pi / 180 / 2))\<^sup>2 +
                     cos (lat1 * pi / 180) * cos (lat2 * pi / 180) *
                     (sin ((lon2 - lon1) * pi / 180 / 2))\<^sup>2)))"

section \<open>Helpers for JavaScript idioms\<close>

text \<open>Property access \<open>obj[k]\<close> turns a \<open>null\<close> key into the string \<open>"null"\<close>.\<close>

fun propKey :: "string option \<Rightarrow> string" where
  "propKey None = ''null''"
| "propKey (Some k) = k"

text \<open>Truthiness of a string-or-null value: \<open>null\<close> and the empty string are falsy.\<close>

fun truthy :: "string option \<Rightarrow> bool" where
  "truthy None = False"
| "truthy (Some v) = (v \<noteq> [])"

text \<open>\<open>v || null\<close> for a string \<open>v\<close>.\<close>

definition orNull :: "string \<Rightarrow> string option" where
  "orNull v = (if v = [] then None else Some v)"

text \<open>\<open>Math.round\<close>: the nearest integer, halves upwards.\<close>

definition js_round :: "real \<Rightarrow> int" where
  "js_round x = \<lfloor>x + 1 / 2\<rfloor>"

text \<open>The distance from a position to a site, as every caller computes it.\<close>

definition distanceTo :: "position \<Rightarrow> site \<Rightarrow> real" where
  "distanceTo pos st =
     getDistanceFromLatLonInMeters (pos_lat pos) (pos_lng pos) (site_lat st) (site_lng st)"

text \<open>\<open>company.sites.find(s => s.id === user.assignedSiteId)\<close>.\<close>

definition findAssignedSite :: "company \<Rightarrow> user \<Rightarrow> site option" where
  "findAssignedSite c u = find (\<lambda>st. Some (site_id st) = u_assignedSiteId u) (co_sites c)"

text \<open>Rewrites the first element that satisfies the test (the object \<open>find\<close> returned).\<close>

fun updateFirst :: "('a \<Rightarrow> bool) \<Rightarrow> ('a \<Rightarrow> 'a) \<Rightarrow> 'a list \<Rightarrow> 'a list" where
  "updateFirst P f [] = []"
| "updateFirst P f (x # xs) = (if P x then f x # xs else x # updateFirst P f xs)"

text \<open>\<open>refreshDashboard\<close> only renders; what matters here is whether it returns: for a
  manager it reads \<open>company.sites\<close> of the session's company and throws when that company
  is missing.\<close>

definition refreshDashboard :: "app \<Rightarrow> bool" where
  "refreshDashboard s =
     (case currentUser s of
        None \<Rightarrow> True
      | Some cu \<Rightarrow>
          (if u_role (s_user cu) = Manager
           then companies s (propKey (u_companyId (s_user cu))) \<noteq> None
           else True))"

definition afterRefresh :: "app \<Rightarrow> outcome \<times> app" where
  "afterRefresh s = (if refreshDashboard s then (Done, s) else (Uncaught_TypeError, s))"

section \<open>Logs and history\<close>

definition addLog :: "string option \<Rightarrow> string \<Rightarrow> string \<Rightarrow> string \<Rightarrow> app \<Rightarrow> app option" where
  "addLog companyId username action time s =
     (case companies s (propKey companyId) of
        None \<Rightarrow> None
      | Some company \<Rightarrow>
          (let unshifted = \<lparr>log_username = username, log_action = action, log_time = time\<rparr>
                             # co_logs company;
               logs' = (if length unshifted > 20 then butlast unshifted else unshifted)
           in Some (s\<lparr>companies := (companies s)(propKey companyId \<mapsto> company\<lparr>co_logs := logs'\<rparr>)\<rparr>)))"

definition trackLocation :: "clock \<Rightarrow> string \<Rightarrow> app \<Rightarrow> app" where
  "trackLocation clk siteId s =
     (case currentPosition s of
        None \<Rightarrow> s
      | Some pos \<Rightarrow>
          (case currentUser s of
             None \<Rightarrow> s
           | Some cu \<Rightarrow>
               (case users s (s_username cu) of
                  None \<Rightarrow> s
                | Some user \<Rightarrow>
                    (let h0 = (case u_history user of None \<Rightarrow> [] | Some h \<Rightarrow> h);
                         pushed = h0 @ [\<lparr>hp_lat = pos_lat pos, hp_lng = pos_lng pos,
                                         hp_time = clk_localeString clk, hp_siteId = siteId\<rparr>];
                         h' = (if length pushed > 50 then tl pushed else pushed)
                     in s\<lparr>users := (users s)(s_username cu \<mapsto> user\<lparr>u_history := Some h'\<rparr>)\<rparr>))))"

section \<open>Attendance state machine\<close>

definition checkOut :: "string \<Rightarrow> clock \<Rightarrow> app \<Rightarrow> outcome \<times> app" where
  "checkOut reason clk s =
     (case currentUser s of
        None \<Rightarrow> (Returned, s)
      | Some cu \<Rightarrow>
          (case users s (s_username cu) of
             None \<Rightarrow> (Returned, s)
           | Some user \<Rightarrow>
               (let s1 = s\<lparr>users := (users s)(s_username cu \<mapsto>
                                user\<lparr>u_status := Some CheckedOut, u_checkInTime := None\<rparr>),
                           trackingInterval := None\<rparr>
                in case addLog (u_companyId (s_user cu)) (s_username cu) reason
                          (clk_localeTimeString clk) s1 of
                     None \<Rightarrow> (Uncaught_TypeError, s1)
                   | Some s2 \<Rightarrow> afterRefresh s2)))"

definition checkIn :: "clock \<Rightarrow> app \<Rightarrow> outcome \<times> app" where
  "checkIn clk s =
     (case currentPosition s of
        None \<Rightarrow> (Alerted GpsNotAvailable, s)
      | Some pos \<Rightarrow>
          (case currentUser s of
             None \<Rightarrow> (Uncaught_TypeError, s)
           | Some cu \<Rightarrow>
               (case companies s (propKey (u_companyId (s_user cu))) of
                  None \<Rightarrow> (Alerted WorksiteDeletedOrNotFound, s)
                | Some company \<Rightarrow>
                    (case users s (s_username cu) of
                       None \<Rightarrow>
                         (if co_sites company = [] then (Alerted WorksiteDeletedOrNotFound, s)
                          else (Uncaught_TypeError, s))
                     | Some user \<Rightarrow>
                         (case findAssignedSite company user of
                            None \<Rightarrow> (Alerted WorksiteDeletedOrNotFound, s)
                          | Some st \<Rightarrow>
                              (let dist = distanceTo pos st in
                               if dist > MAX_DISTANCE_METERS
                               then (Alerted (TooFarFromSite (site_name st) (js_round dist)), s)
                               else
                                 (let s1 = s\<lparr>users := (users s)(s_username cu \<mapsto>
                                                 user\<lparr>u_status := Some CheckedIn,
                                                      u_checkInTime := Some (clk_now clk),
                                                      u_lastPing := Some (clk_now clk)\<rparr>)\<rparr>;
                                      s2 = trackLocation clk (site_id st) s1;
                                      s3 = s2\<lparr>trackingInterval := Some (site_id st)\<rparr>
                                  in case addLog (u_companyId (s_user cu)) (s_username cu)
                                            (''Check-In @ '' @ site_name st)
                                            (clk_localeTimeString clk) s3 of
                                       None \<Rightarrow> (Uncaught_TypeError, s3)
                                     | Some s4 \<Rightarrow> afterRefresh s4)))))))"

text \<open>The callback of the history timer started by \<open>checkIn\<close>.\<close>

definition trackingTick :: "clock \<Rightarrow> app \<Rightarrow> app" where
  "trackingTick clk s =
     (case trackingInterval s of None \<Rightarrow> s | Some siteId \<Rightarrow> trackLocation clk siteId s)"

section \<open>Geofence monitoring\<close>

definition monitorGeofence :: "clock \<Rightarrow> app \<Rightarrow> outcome \<times> app" where
  "monitorGeofence clk s =
     (case currentUser s of
        None \<Rightarrow> (Uncaught_TypeError, s)
      | Some cu \<Rightarrow>
          (case users s (s_username cu) of
             None \<Rightarrow> (Uncaught_TypeError, s)
           | Some user \<Rightarrow>
               (if u_status user \<noteq> Some CheckedIn then (Returned, s)
                else
                  (case companies s (propKey (u_companyId (s_user cu))) of
                     None \<Rightarrow> (Uncaught_TypeError, s)
                   | Some company \<Rightarrow>
                       (case findAssignedSite company user of
                          None \<Rightarrow> (Returned, s)
                        | Some st \<Rightarrow>
                            (case currentPosition s of
                               None \<Rightarrow> (Returned, s)
                             | Some pos \<Rightarrow>
                                 (let dist = distanceTo pos st in
                                  if dist > MAX_DISTANCE_METERS
                                  then (case checkOut ''Geofence Exit'' clk s of
                                          (Done, s') \<Rightarrow>
                                            (Alerted (GeofenceAutoCheckOut (js_round dist)), s')
                                        | (other, s') \<Rightarrow> (other, s'))
                                  else (Done, s))))))))"

text \<open>The success callback of \<open>watchPosition\<close> (the high-accuracy watcher and its
  low-accuracy replacement run the same statements).\<close>

definition positionSample :: "clock \<Rightarrow> real \<Rightarrow> real \<Rightarrow> app \<Rightarrow> outcome \<times> app" where
  "positionSample clk latitude longitude s =
     (let s1 = s\<lparr>currentPosition := Some \<lparr>pos_lat = latitude, pos_lng = longitude\<rparr>\<rparr>
      in case currentUser s1 of
           None \<Rightarrow> (Done, s1)
         | Some cu \<Rightarrow>
             (if u_role (s_user cu) = Employee then monitorGeofence clk s1 else (Done, s1)))"

definition useMockLocation :: "clock \<Rightarrow> app \<Rightarrow> outcome \<times> app" where
  "useMockLocation clk s = positionSample clk (40.7128) (- 74.0060) s"

text \<open>The success callback of the one-off \<open>getCurrentPosition\<close> that \<open>login\<close> starts.\<close>

definition loginGpsFix :: "real \<Rightarrow> real \<Rightarrow> app \<Rightarrow> app" where
  "loginGpsFix latitude longitude s =
     s\<lparr>currentPosition := Some \<lparr>pos_lat = latitude, pos_lng = longitude\<rparr>\<rparr>"

definition logout :: "app \<Rightarrow> app" where
  "logout s = s\<lparr>currentUser := None\<rparr>"

definition checkGeofence :: "app \<Rightarrow> outcome \<times> app" where
  "checkGeofence s =
     (case currentUser s of
        None \<Rightarrow> (Returned, s)
      | Some cu \<Rightarrow>
          (if u_role (s_user cu) \<noteq> Employee then (Returned, s)
           else
             (case users s (s_username cu) of
                None \<Rightarrow> (Returned, s)
              | Some user \<Rightarrow>
                  (if u_status user \<noteq> Some CheckedIn then (Returned, s)
                   else
                     (case companies s (propKey (u_companyId (s_user cu))) of
                        None \<Rightarrow> (Uncaught_TypeError, s)
                      | Some company \<Rightarrow>
                          (case findAssignedSite company user of
                             None \<Rightarrow> (Returned, s)
                           | Some st \<Rightarrow>
                               (case currentPosition s of
                                  None \<Rightarrow> (Returned, s)
                                | Some pos \<Rightarrow>
                                    (if distanceTo pos st > MAX_DISTANCE_METERS
                                     then (Alerted (DebugAutoLogout (site_name st)), logout s)
                                     else (Done, s)))))))))"

definition debugSetLocation :: "real \<Rightarrow> real \<Rightarrow> app \<Rightarrow> outcome \<times> app" where
  "debugSetLocation latitude longitude s =
     checkGeofence (s\<lparr>currentPosition := Some \<lparr>pos_lat = latitude, pos_lng = longitude\<rparr>\<rparr>)"

section \<open>Authentication\<close>

text \<open>The form fields arrive as the handlers use them: trimmed, the username in lower
  case and the company id in upper case. Random values (the generated company id, the
  verification code) are arguments.\<close>

definition registerNewCompany ::
    "string \<Rightarrow> string \<Rightarrow> string \<Rightarrow> string \<Rightarrow> app \<Rightarrow> outcome \<times> app" where
  "registerNewCompany companyName managerName companyId verifyCode s =
     (if companyName = [] \<or> managerName = [] then (Alerted FillAllFields, s)
      else if users s managerName \<noteq> None then (Alerted ManagerUsernameTaken, s)
      else
        (Done,
         s\<lparr>companies := (companies s)(companyId \<mapsto>
               \<lparr>co_name = Some companyName, co_sites = [], co_employees = [], co_logs = []\<rparr>),
           users := (users s)(managerName \<mapsto>
               \<lparr>u_role = Manager, u_companyId = Some companyId, u_email = None,
                u_phone = None, u_passcode = None, u_assignedSiteId = None,
                u_status = None, u_checkInTime = None, u_lastPing = None,
                u_verified = Some False, u_verifyCode = Some verifyCode,
                u_history = Some []\<rparr>)\<rparr>))"

definition registerNewEmployeeUser ::
    "string \<Rightarrow> string \<Rightarrow> string \<Rightarrow> string \<Rightarrow> string \<Rightarrow> app \<Rightarrow> outcome \<times> app" where
  "registerNewEmployeeUser username email phone passcode verifyCode s =
     (if username = [] then (Alerted EnterAUsername, s)
      else if email = [] \<and> phone = [] then (Alerted ProvideEmailOrPhone, s)
      else if users s username \<noteq> None then (Alerted UsernameTaken, s)
      else
        (Done,
         s\<lparr>users := (users s)(username \<mapsto>
               \<lparr>u_role = Employee, u_companyId = None, u_email = Some email,
                u_phone = Some phone, u_passcode = orNull passcode,
                u_assignedSiteId = None, u_status = Some CheckedOut,
                u_checkInTime = None, u_lastPing = None, u_verified = Some False,
                u_verifyCode = Some verifyCode, u_history = Some []\<rparr>)\<rparr>))"

definition verifyAccount :: "string \<Rightarrow> app \<Rightarrow> outcome \<times> app" where
  "verifyAccount codeInput s =
     (case pendingUser s of
        None \<Rightarrow> (Returned, s)
      | Some pu \<Rightarrow>
          (case users s (s_username pu) of
             None \<Rightarrow> (Uncaught_TypeError, s)
           | Some user \<Rightarrow>
               (if Some codeInput \<noteq> u_verifyCode user \<and> codeInput \<noteq> ''1234''
                then (Alerted InvalidCode, s)
                else
                  (let user' = user\<lparr>u_verified := Some True\<rparr>;
                       s1 = s\<lparr>users := (users s)(s_username pu \<mapsto> user'),
                              currentUser := Some \<lparr>s_username = s_username pu, s_user = user'\<rparr>,
                              pendingUser := None\<rparr>;
                       key = propKey (u_companyId user');
                       s2 = (if companies s1 key = None \<and> u_role user' = Manager
                             then s1\<lparr>companies := (companies s1)(key \<mapsto>
                                       \<lparr>co_name = None, co_sites = [], co_employees = [],
                                        co_logs = []\<rparr>)\<rparr>
                             else s1)
                   in afterRefresh s2))))"

text \<open>The tail of \<open>login\<close>: the session is set and the dashboard rendered.\<close>

definition loginSuccess :: "string \<Rightarrow> user \<Rightarrow> app \<Rightarrow> outcome \<times> app" where
  "loginSuccess username user s =
     afterRefresh (s\<lparr>currentUser := Some \<lparr>s_username = username, s_user = user\<rparr>\<rparr>)"

text \<open>The strict location check of \<open>login\<close>, for employees only.\<close>

definition loginLocationCheck :: "string \<Rightarrow> user \<Rightarrow> app \<Rightarrow> outcome \<times> app" where
  "loginLocationCheck username user s =
     (if u_role user = Employee then
        (case currentPosition s of
           None \<Rightarrow> (Alerted DetectingLocation, s)
         | Some pos \<Rightarrow>
             (case companies s (propKey (u_companyId user)) of
                None \<Rightarrow> (Uncaught_TypeError, s)
              | Some company \<Rightarrow>
                  (case findAssignedSite company user of
                     None \<Rightarrow> (Alerted AssignedWorksiteNotFound, s)
                   | Some st \<Rightarrow>
                       (let dist = distanceTo pos st in
                        if dist > MAX_DISTANCE_METERS
                        then (Alerted (AccessDenied (js_round dist) (site_name st)), s)
                        else loginSuccess username user s))))
      else loginSuccess username user s)"

definition login :: "string \<Rightarrow> string \<Rightarrow> string \<Rightarrow> app \<Rightarrow> outcome \<times> app" where
  "login username companyInput passInput s =
     (if username = [] then (Alerted EnterYourUsername, s)
      else
        (case users s username of
           None \<Rightarrow> (Alerted UserNotFound, s)
         | Some user \<Rightarrow>
             (if companyInput = [] \<and> \<not> truthy (u_companyId user)
              then (Alerted NoCompanyIdYet, s)
              else
                (let companyId = (if companyInput = [] then propKey (u_companyId user)
                                  else companyInput)
                 in if truthy (u_companyId user) \<and> u_companyId user \<noteq> Some companyId
                    then (Alerted (IncorrectCompanyId (u_companyId user)), s)
                    else if truthy (u_passcode user) \<and> passInput = []
                    then (Alerted PasscodeRequired, s)
                    else if truthy (u_passcode user) \<and> Some passInput \<noteq> u_passcode user
                    then (Alerted InvalidPasscode, s)
                    else if u_verified user = Some False
                    then (ShowVerify,
                          s\<lparr>pendingUser := Some \<lparr>s_username = username, s_user = user\<rparr>\<rparr>)
                    else if \<not> truthy (u_companyId user)
                    then (Alerted NotLinkedToCompany, s)
                    else loginLocationCheck username user s))))"

section \<open>Manager features\<close>

text \<open>Decimal rendering of \<open>Date.now()\<close>, for the id \<open>'site_' + Date.now()\<close>.\<close>

fun decimal :: "nat \<Rightarrow> string" where
  "decimal n =
     (if n < 10 then [char_of (48 + n)]
      else decimal (n div 10) @ [char_of (48 + n mod 10)])"

definition nullIsland :: "position \<Rightarrow> bool" where
  "nullIsland pos = (\<bar>pos_lat pos\<bar> < 0.0001 \<and> \<bar>pos_lng pos\<bar> < 0.0001)"

definition createSite :: "string \<Rightarrow> clock \<Rightarrow> app \<Rightarrow> outcome \<times> app" where
  "createSite siteName clk s =
     (if siteName = [] then (Alerted EnterASiteName, s)
      else
        (case currentPosition s of
           None \<Rightarrow> (Alerted WaitingForGps, s)
         | Some pos \<Rightarrow>
             (if nullIsland pos then (Alerted NullIsland, s)
              else
                (case currentUser s of
                   None \<Rightarrow> (Uncaught_TypeError, s)
                 | Some cu \<Rightarrow>
                     (case companies s (propKey (u_companyId (s_user cu))) of
                        None \<Rightarrow> (Uncaught_TypeError, s)
                      | Some company \<Rightarrow>
                          (let newSite = \<lparr>site_id = ''site_'' @ decimal (clk_now clk),
                                          site_name = siteName,
                                          site_lat = pos_lat pos, site_lng = pos_lng pos\<rparr>
                           in afterRefresh
                                (s\<lparr>companies := (companies s)(propKey (u_companyId (s_user cu)) \<mapsto>
                                      company\<lparr>co_sites := co_sites company @ [newSite]\<rparr>)\<rparr>)))))))"

definition updateSiteLocation :: "string \<Rightarrow> bool \<Rightarrow> app \<Rightarrow> outcome \<times> app" where
  "updateSiteLocation siteId confirmed s =
     (case currentPosition s of
        None \<Rightarrow> (Alerted WaitingForGps, s)
      | Some pos \<Rightarrow>
          (if nullIsland pos then (Alerted NullIsland, s)
           else
             (case currentUser s of
                None \<Rightarrow> (Uncaught_TypeError, s)
              | Some cu \<Rightarrow>
                  (case companies s (propKey (u_companyId (s_user cu))) of
                     None \<Rightarrow> (Uncaught_TypeError, s)
                   | Some company \<Rightarrow>
                       (case find (\<lambda>st. site_id st = siteId) (co_sites company) of
                          None \<Rightarrow> (Returned, s)
                        | Some st \<Rightarrow>
                            (if \<not> confirmed then (Returned, s)
                             else afterRefresh
                                    (s\<lparr>companies := (companies s)(propKey (u_companyId (s_user cu)) \<mapsto>
                                          company\<lparr>co_sites :=
                                            updateFirst (\<lambda>st. site_id st = siteId)
                                              (\<lambda>st. st\<lparr>site_lat := pos_lat pos,
                                                        site_lng := pos_lng pos\<rparr>)
                                              (co_sites company)\<rparr>)\<rparr>)))))))"

text \<open>The end of \<open>registerEmployee\<close> for a created or linked user: the roster entry is
  added unless one with that username is there.\<close>

definition addToRoster :: "string \<Rightarrow> string \<Rightarrow> string \<Rightarrow> session \<Rightarrow> app \<Rightarrow> outcome \<times> app" where
  "addToRoster username contact siteId cu s =
     (case companies s (propKey (u_companyId (s_user cu))) of
        None \<Rightarrow> (Uncaught_TypeError, s)
      | Some company \<Rightarrow>
          (let roster = (if find (\<lambda>e. emp_username e = username) (co_employees company) = None
                         then co_employees company @
                              [\<lparr>emp_username = username, emp_contact = contact,
                                emp_assignedSiteId = siteId\<rparr>]
                         else co_employees company)
           in afterRefresh
                (s\<lparr>companies := (companies s)(propKey (u_companyId (s_user cu)) \<mapsto>
                      company\<lparr>co_employees := roster\<rparr>)\<rparr>)))"

definition registerEmployee ::
    "string \<Rightarrow> string \<Rightarrow> string \<Rightarrow> string \<Rightarrow> app \<Rightarrow> outcome \<times> app" where
  "registerEmployee username contact siteId passcode s =
     (case currentUser s of
        None \<Rightarrow> (Uncaught_TypeError, s)
      | Some cu \<Rightarrow>
          (if username = [] \<or> contact = [] \<or> siteId = [] then (Alerted FillAllFields, s)
           else
             (let hasAt = (CHR ''@'' \<in> set contact);
                  myCompany = u_companyId (s_user cu)
              in case users s username of
                   None \<Rightarrow>
                     addToRoster username contact siteId cu
                       (s\<lparr>users := (users s)(username \<mapsto>
                             \<lparr>u_role = Employee, u_companyId = myCompany,
                              u_email = (if hasAt then Some contact else None),
                              u_phone = (if \<not> hasAt then Some contact else None),
                              u_passcode = orNull passcode,
                              u_assignedSiteId = Some siteId,
                              u_status = Some CheckedOut, u_checkInTime = None,
                              u_lastPing = None, u_verified = Some True,
                              u_verifyCode = None, u_history = None\<rparr>)\<rparr>)
                 | Some user \<Rightarrow>
                     (if u_companyId user = None then
                        addToRoster username contact siteId cu
                          (s\<lparr>users := (users s)(username \<mapsto>
                                user\<lparr>u_companyId := myCompany,
                                     u_assignedSiteId := Some siteId,
                                     u_email := (if hasAt then Some contact else None),
                                     u_phone := (if \<not> hasAt then Some contact else None)\<rparr>)\<rparr>)
                      else if u_companyId user \<noteq> myCompany
                      then (Alerted BelongsToAnotherCompany, s)
                      else
                        (let s1 = s\<lparr>users := (users s)(username \<mapsto>
                                        user\<lparr>u_assignedSiteId := Some siteId\<rparr>)\<rparr>
                         in case companies s1 (propKey myCompany) of
                              None \<Rightarrow> (Uncaught_TypeError, s1)
                            | Some company \<Rightarrow>
                                afterRefresh
                                  (s1\<lparr>companies := (companies s1)(propKey myCompany \<mapsto>
                                         company\<lparr>co_employees :=
                                           updateFirst (\<lambda>e. emp_username e = username)
                                             (\<lambda>e. e\<lparr>emp_assignedSiteId := siteId\<rparr>)
                                             (co_employees company)\<rparr>)\<rparr>))))))"

definition removeEmployee :: "bool \<Rightarrow> string \<Rightarrow> app \<Rightarrow> outcome \<times> app" where
  "removeEmployee confirmed username s =
     (if \<not> confirmed then (Returned, s)
      else
        (case currentUser s of
           None \<Rightarrow> (Uncaught_TypeError, s)
         | Some cu \<Rightarrow>
             (case companies s (propKey (u_companyId (s_user cu))) of
                None \<Rightarrow> (Uncaught_TypeError, s)
              | Some company \<Rightarrow>
                  afterRefresh
                    (s\<lparr>companies := (companies s)(propKey (u_companyId (s_user cu)) \<mapsto>
                          company\<lparr>co_employees :=
                            filter (\<lambda>e. emp_username e \<noteq> username) (co_employees company)\<rparr>),
                       users := (users s)(username := None)\<rparr>))))"

section \<open>The app as a transition system\<close>

datatype command =
    RegisterNewCompany string string string string
  | RegisterNewEmployeeUser string string string string string
  | VerifyAccount string
  | Login string string string
  | Logout
  | PositionSample real real
  | LoginGpsFix real real
  | UseMockLocation
  | DebugSetLocation real real
  | CreateSite string
  | UpdateSiteLocation string bool
  | RegisterEmployee string string string string
  | RemoveEmployee bool string
  | CheckIn
  | TrackingTick
  | CheckOut string

fun step :: "clock \<Rightarrow> command \<Rightarrow> app \<Rightarrow> outcome \<times> app" where
  "step clk (RegisterNewCompany cn mn cid code) s = registerNewCompany cn mn cid code s"
| "step clk (RegisterNewEmployeeUser un em ph pc code) s =
     registerNewEmployeeUser un em ph pc code s"
| "step clk (VerifyAccount code) s = verifyAccount code s"
| "step clk (Login un cid pc) s = login un cid pc s"
| "step clk Logout s = (Done, logout s)"
| "step clk (PositionSample la lo) s = positionSample clk la lo s"
| "step clk (LoginGpsFix la lo) s = (Done, loginGpsFix la lo s)"
| "step clk UseMockLocation s = useMockLocation clk s"
| "step clk (DebugSetLocation la lo) s = debugSetLocation la lo s"
| "step clk (CreateSite n) s = createSite n clk s"
| "step clk (UpdateSiteLocation sid ok) s = updateSiteLocation sid ok s"
| "step clk (RegisterEmployee un ct sid pc) s = registerEmployee un ct sid pc s"
| "step clk (RemoveEmployee ok un) s = removeEmployee ok un s"
| "step clk CheckIn s = checkIn clk s"
| "step clk TrackingTick s = (Done, trackingTick clk s)"
| "step clk (CheckOut reason) s = checkOut reason clk s"

fun run :: "(clock \<times> command) list \<Rightarrow> app \<Rightarrow> app" where
  "run [] s = s"
| "run ((clk, c) # cs) s = run cs (snd (step clk c s))"

text \<open>The invariant of the data model on one user record and on the whole store.\<close>

definition userInv :: "user \<Rightarrow> bool" where
  "userInv u =
     ((u_status u = Some CheckedIn \<longrightarrow> u_checkInTime u \<noteq> None) \<and>
      (u_status u = Some CheckedOut \<longrightarrow> u_checkInTime u = None))"

definition storeInv :: "app \<Rightarrow> bool" where
  "storeInv s = (\<forall>name u. users s name = Some u \<longrightarrow> userInv u)"

text \<open>The state of a fresh installation: \<open>defaultDB\<close> and no session.\<close>

definition defaultApp :: app where
  "defaultApp =
     \<lparr>companies = [''DEMO'' \<mapsto>
         \<lparr>co_name = None,
          co_sites = [\<lparr>site_id = ''site_1'', site_name = ''Main HQ'',
                       site_lat = 31.9686, site_lng = 99.9018\<rparr>],
          co_employees = [], co_logs = []\<rparr>],
      users = [''manager'' \<mapsto>
         \<lparr>u_role = Manager, u_companyId = Some ''DEMO'', u_email = None, u_phone = None,
          u_passcode = None, u_assignedSiteId = None, u_status = None,
          u_checkInTime = None, u_lastPing = None, u_verified = None,
          u_verifyCode = None, u_history = None\<rparr>],
      currentUser = None, pendingUser = None, currentPosition = None,
      trackingInterval = None\<rparr>"

section \<open>Sequences of history samples and log entries\<close>

text \<open>Repeated \<open>trackLocation\<close> calls; each call finds the position, the time and the site
  id given for it.\<close>

definition mkPoint :: "position \<times> clock \<times> string \<Rightarrow> history_point" where
  "mkPoint x =
     (case x of (pos, clk, siteId) \<Rightarrow>
        \<lparr>hp_lat = pos_lat pos, hp_lng = pos_lng pos,
         hp_time = clk_localeString clk, hp_siteId = siteId\<rparr>)"

fun trackLocationSeq :: "(position \<times> clock \<times> string) list \<Rightarrow> app \<Rightarrow> app" where
  "trackLocationSeq [] s = s"
| "trackLocationSeq ((pos, clk, siteId) # xs) s =
     trackLocationSeq xs (trackLocation clk siteId (s\<lparr>currentPosition := Some pos\<rparr>))"

definition historyOf :: "string \<Rightarrow> app \<Rightarrow> history_point list option" where
  "historyOf username s = (case users s username of None \<Rightarrow> None | Some u \<Rightarrow> u_history u)"

text \<open>Repeated \<open>addLog\<close> calls for one company; an entry is (username, action, time).\<close>

definition mkLog :: "string \<times> string \<times> string \<Rightarrow> log_entry" where
  "mkLog x =
     (case x of (username, action, time) \<Rightarrow>
        \<lparr>log_username = username, log_action = action, log_time = time\<rparr>)"

fun addLogSeq :: "string option \<Rightarrow> (string \<times> string \<times> string) list \<Rightarrow> app \<Rightarrow> app option" where
  "addLogSeq companyId [] s = Some s"
| "addLogSeq companyId ((username, action, time) # xs) s =
     (case addLog companyId username action time s of
        None \<Rightarrow> None
      | Some s' \<Rightarrow> addLogSeq companyId xs s')"

definition logsOf :: "string option \<Rightarrow> app \<Rightarrow> log_entry list option" where
  "logsOf companyId s =
     (case companies s (propKey companyId) of None \<Rightarrow> None | Some c \<Rightarrow> Some (co_logs c))"

section \<open>A concrete installation\<close>

text \<open>The scenario of the specification: the company Acme with one site \<open>S\<close>, its manager,
  and the employee \<open>bob\<close> as \<open>registerEmployee\<close> creates him, assigned to \<open>S\<close>.\<close>

definition exampleSite :: site where
  "exampleSite = \<lparr>site_id = ''site_1'', site_name = ''S'', site_lat = 0, site_lng = 0\<rparr>"

definition exampleBob :: user where
  "exampleBob =
     \<lparr>u_role = Employee, u_companyId = Some ''ACME1234'', u_email = None,
      u_phone = Some ''555'', u_passcode = None, u_assignedSiteId = Some ''site_1'',
      u_status = Some CheckedOut, u_checkInTime = None, u_lastPing = None,
      u_verified = Some True, u_verifyCode = None, u_history = None\<rparr>"

definition exampleBoss :: user where
  "exampleBoss =
     \<lparr>u_role = Manager, u_companyId = Some ''ACME1234'', u_email = None, u_phone = None,
      u_passcode = None, u_assignedSiteId = None, u_status = None, u_checkInTime = None,
      u_lastPing = None, u_verified = Some True, u_verifyCode = Some ''4321'',
      u_history = Some []\<rparr>"

definition exampleCompany :: company where
  "exampleCompany =
     \<lparr>co_name = Some ''Acme'', co_sites = [exampleSite],
      co_employees = [\<lparr>emp_username = ''bob'', emp_contact = ''555'',
                       emp_assignedSiteId = ''site_1''\<rparr>],
      co_logs = []\<rparr>"

definition exampleDB :: app where
  "exampleDB =
     \<lparr>companies = [''ACME1234'' \<mapsto> exampleCompany],
      users = [''bob'' \<mapsto> exampleBob, ''boss'' \<mapsto> exampleBoss],
      currentUser = None, pendingUser = None, currentPosition = None,
      trackingInterval = None\<rparr>"

definition exampleClock :: clock where
  "exampleClock =
     \<lparr>clk_now = 1700000000000, clk_localeTimeString = ''9:00:00 AM'',
      clk_localeString = ''1/1/2024, 9:00:00 AM''\<rparr>"

text \<open>\<open>bob\<close> logged in, standing at the given position.\<close>

definition bobAt :: "real \<Rightarrow> real \<Rightarrow> app" where
  "bobAt latitude longitude =
     exampleDB\<lparr>currentUser := Some \<lparr>s_username = ''bob'', s_user = exampleBob\<rparr>,
               currentPosition := Some \<lparr>pos_lat = latitude, pos_lng = longitude\<rparr>\<rparr>"


text \<open>A store whose company table lacks the company \<open>bob\<close> belongs to; a position is known
  and nobody is logged in.\<close>

definition orphanedDB :: app where
  "orphanedDB =
     exampleDB\<lparr>companies := Map.empty,
               currentPosition := Some \<lparr>pos_lat = 0, pos_lng = 0\<rparr>\<rparr>"

text \<open>The manager of Acme logged in, with a user \<open>eve\<close> of another company in the store.\<close>

definition bossSession :: app where
  "bossSession =
     exampleDB\<lparr>users := (users exampleDB)(''eve'' \<mapsto> exampleBob\<lparr>u_companyId := Some ''OTHR0001''\<rparr>),
               currentUser := Some \<lparr>s_username = ''boss'', s_user = exampleBoss\<rparr>\<rparr>"

text \<open>Sixty samples at sixty different positions, and twenty-five log entries.\<close>

definition sixtySamples :: "(position \<times> clock \<times> string) list" where
  "sixtySamples =
     map (\<lambda>n. (\<lparr>pos_lat = 0, pos_lng = real n / 1000000\<rparr>,
               \<lparr>clk_now = n, clk_localeTimeString = decimal n, clk_localeString = decimal n\<rparr>,
               ''site_1'')) [0..<60]"

definition twentyFiveEntries :: "(string \<times> string \<times> string) list" where
  "twentyFiveEntries = map (\<lambda>n. (''bob'', ''Check-Out'', decimal n)) [0..<25]"

section \<open>Properties of the distance calculator\<close>




lemma sin_sq_range: "0 \<le> sin z * sin z \<and> sin z * sin z \<le> 1" for z :: real
  using sin_cos_squared_add3[of z] zero_le_square[of "cos z"] zero_le_square[of "sin z"]
  by linarith

lemma haversine_term_range:
  fixes p1 p2 l :: real
  defines "a \<equiv> sin ((p2 - p1) / 2) * sin ((p2 - p1) / 2) +
                 cos p1 * cos p2 * sin (l / 2) * sin (l / 2)"
  shows "0 \<le> a \<and> a \<le> 1"
proof -
  define u where "u = sin ((p2 - p1) / 2) * sin ((p2 - p1) / 2)"
  define t where "t = sin (l / 2) * sin (l / 2)"
  define k where "k = cos (p1 + p2)"
  have u: "0 \<le> u" "u \<le> 1" unfolding u_def using sin_sq_range by simp_all
  have t: "0 \<le> t" "t \<le> 1" unfolding t_def using sin_sq_range by simp_all
  have k: "- 1 \<le> k" "k \<le> 1" unfolding k_def by simp_all
  have "2 * ((p2 - p1) / 2) = p2 - p1" by simp
  then have "cos (p2 - p1) = 1 - 2 * u"
    using cos_double_sin[of "(p2 - p1) / 2"] by (simp only: u_def power2_eq_square)
  moreover have "cos (p1 - p2) = cos (p2 - p1)"
    using cos_minus[of "p2 - p1"] by simp
  ultimately have cc: "cos p1 * cos p2 = (1 - 2 * u + k) / 2"
    by (simp only: cos_times_cos k_def)
  have "a = u + (1 - 2 * u + k) / 2 * t"
    unfolding a_def using cc by (simp add: u_def t_def mult.assoc)
  also have "\<dots> = u * (1 - t) + t * ((1 + k) / 2)" by (simp add: field_simps)
  finally have a: "a = u * (1 - t) + t * ((1 + k) / 2)" .
  have n1: "0 \<le> u * (1 - t)" using u t by simp
  have n2: "0 \<le> t * ((1 + k) / 2)" using t k by simp
  have m1: "u * (1 - t) \<le> 1 * (1 - t)" using u t by (intro mult_right_mono) simp_all
  have m2: "t * ((1 + k) / 2) \<le> t * 1" using t k by (intro mult_left_mono) simp_all
  show ?thesis using a n1 n2 m1 m2 by simp
qed

lemma atan2_sqrt_arcsin:
  assumes "0 \<le> a" "a \<le> 1"
  shows "atan2 (sqrt a) (sqrt (1 - a)) = arcsin (sqrt a)"
proof (cases "a = 1")
  case True
  then show ?thesis by (simp add: atan2_def)
next
  case False
  with assms have lt: "a < 1" by simp
  have s1: "sqrt a < 1" using lt assms by simp
  have s0: "- 1 < sqrt a" using assms real_sqrt_ge_zero[of a] by linarith
  have "arcsin (sqrt a) = arctan (sqrt a / sqrt (1 - (sqrt a)\<^sup>2))"
    using s0 s1 by (rule arcsin_arctan)
  also have "(sqrt a)\<^sup>2 = a" using assms by simp
  finally show ?thesis using lt by (simp add: atan2_def)
qed

lemma distance_is_haversine:
  "getDistanceFromLatLonInMeters lat1 lon1 lat2 lon2 = spec_haversine_meters lat1 lon1 lat2 lon2"
proof -
  define a where "a = sin (deg2rad (lat2 - lat1) / 2) * sin (deg2rad (lat2 - lat1) / 2) +
      cos (deg2rad lat1) * cos (deg2rad lat2) *
      sin (deg2rad (lon2 - lon1) / 2) * sin (deg2rad (lon2 - lon1) / 2)"
  have d: "deg2rad (lat2 - lat1) = deg2rad lat2 - deg2rad lat1"
    by (simp add: deg2rad_def left_diff_distrib)
  have r: "0 \<le> a \<and> a \<le> 1"
    unfolding a_def d by (rule haversine_term_range)
  have code: "getDistanceFromLatLonInMeters lat1 lon1 lat2 lon2 =
      6371 * (2 * atan2 (sqrt a) (sqrt (1 - a))) * 1000"
    by (simp add: getDistanceFromLatLonInMeters_def Let_def a_def)
  have spec: "spec_haversine_meters lat1 lon1 lat2 lon2 = 1000 * (2 * 6371 * arcsin (sqrt a))"
    by (simp add: spec_haversine_meters_def a_def deg2rad_def power2_eq_square mult.assoc)
  show ?thesis using r by (simp add: code spec atan2_sqrt_arcsin)
qed

lemma distance_equator_degree: "getDistanceFromLatLonInMeters 0 0 0 1 = 6371000 * pi / 180"
proof -
  have p: "0 < pi / 360" "pi / 360 < pi / 2" by simp_all
  have "- 1 \<le> sin (pi / 360)" by simp
  have s: "0 \<le> sin (pi / 360)" by (rule sin_ge_zero) (use p in auto)
  have "sqrt ((sin (pi / 360))\<^sup>2) = sin (pi / 360)" using s by simp
  then have "arcsin (sqrt ((sin (pi / 360))\<^sup>2)) = pi / 360"
    using arcsin_sin[of "pi / 360"] p by simp
  then show ?thesis
    by (simp add: distance_is_haversine spec_haversine_meters_def)
qed

lemma sin_taylor5:
  fixes x :: real
  assumes "0 \<le> x"
  shows "x - x ^ 3 / 6 - x ^ 5 / 120 \<le> sin x \<and> sin x \<le> x - x ^ 3 / 6 + x ^ 5 / 120"
proof -
  have "{..<5::nat} = {0, 1, 2, 3, 4}" by auto
  then have "(\<Sum>m<5. sin_coeff m * x ^ m) = x - x ^ 3 / 6"
    by (simp add: sin_coeff_def fact_numeral)
  moreover have "inverse (fact 5) * \<bar>x\<bar> ^ 5 = x ^ 5 / 120"
    using assms by (simp add: fact_numeral)
  ultimately have "\<bar>sin x - (x - x ^ 3 / 6)\<bar> \<le> x ^ 5 / 120"
    using Maclaurin_sin_bound[of x 5] by simp
  then show ?thesis by linarith
qed

lemma pi_bounds: "3.14 < pi \<and> pi < 3.15"
proof
  show "3.14 < pi"
  proof (rule ccontr)
    assume "\<not> 3.14 < pi"
    then have le: "pi / 6 \<le> 0.523334" by simp
    have "sin (pi / 6) \<le> sin (0.523334 :: real)"
      using le pi_ge_two by (intro sin_monotone_2pi_le) simp_all
    moreover have "sin (0.523334 :: real) \<le> 0.523334 - 0.523334 ^ 3 / 6 + 0.523334 ^ 5 / 120"
      using sin_taylor5[of "0.523334"] by simp
    moreover have "(0.523334 - 0.523334 ^ 3 / 6 + 0.523334 ^ 5 / 120 :: real) < 1 / 2"
      by (simp add: power_divide)
    ultimately show False by (simp add: sin_30)
  qed
  show "pi < 3.15"
  proof (rule ccontr)
    assume "\<not> pi < 3.15"
    then have le: "0.525 \<le> pi / 6" by simp
    have "sin (0.525 :: real) \<le> sin (pi / 6)"
      using le by (intro sin_monotone_2pi_le) simp_all
    moreover have "0.525 - 0.525 ^ 3 / 6 - 0.525 ^ 5 / 120 \<le> sin (0.525 :: real)"
      using sin_taylor5[of "0.525"] by simp
    moreover have "1 / 2 < (0.525 - 0.525 ^ 3 / 6 - 0.525 ^ 5 / 120 :: real)"
      by (simp add: power_divide)
    ultimately show False by (simp add: sin_30)
  qed
qed



text \<open>C8: the code computes the haversine great-circle distance with Earth radius
  6371 km and \<open>deg * \<pi>/180\<close>, in meters; from (0,0) to (0,1) it is within 1 percent of
  111195 meters.\<close>

theorem distance_haversine_fixture:
  "getDistanceFromLatLonInMeters lat1 lon1 lat2 lon2 =
     spec_haversine_meters lat1 lon1 lat2 lon2 \<and>
   deg2rad d = d * pi / 180 \<and>
   \<bar>getDistanceFromLatLonInMeters 0 0 0 1 - 111195\<bar> \<le> 111195 / 100"
proof -
  have "\<bar>6371000 * pi / 180 - 111195\<bar> \<le> (111195 / 100 :: real)"
    using pi_bounds by (intro abs_leI) simp_all
  then show ?thesis
    by (simp add: distance_is_haversine[symmetric] distance_equator_degree deg2rad_def)
qed

section \<open>The bounded company log\<close>

lemma unshift_pop_take:
  assumes "length l \<le> 20"
  shows "(if length (e # l) > 20 then butlast (e # l) else e # l) = take 20 (e # l)"
proof (cases "length l = 20")
  case True
  then have "butlast (e # l) = take (length (e # l) - 1) (e # l)"
    by (simp only: butlast_conv_take)
  with True show ?thesis by simp
next
  case False
  with assms show ?thesis by simp
qed

lemma take_append_take: "take n (xs @ take n ys) = take n (xs @ ys)"
  by (simp add: min_def)

lemma addLog_eq:
  assumes "companies s (propKey cid) = Some c" and "length (co_logs c) \<le> 20"
  shows "addLog cid un ac tm s =
           Some (s\<lparr>companies := (companies s)(propKey cid \<mapsto>
                    c\<lparr>co_logs := take 20 (mkLog (un, ac, tm) # co_logs c)\<rparr>)\<rparr>)"
proof -
  have e: "\<lparr>log_username = un, log_action = ac, log_time = tm\<rparr> = mkLog (un, ac, tm)"
    by (simp add: mkLog_def)
  show ?thesis
    by (simp only: addLog_def Let_def assms(1) option.case e unshift_pop_take[OF assms(2)])
qed

lemma addLog_logs:
  assumes "companies s (propKey cid) = Some c" and "length (co_logs c) \<le> 20"
  shows "\<exists>s'. addLog cid un ac tm s = Some s' \<and>
           logsOf cid s' = Some (take 20 (mkLog (un, ac, tm) # co_logs c))"
  by (simp add: addLog_eq[OF assms] logsOf_def del: take_Cons_numeral)

lemma logsOf_SomeD:
  "logsOf cid s = Some l \<Longrightarrow> \<exists>c. companies s (propKey cid) = Some c \<and> co_logs c = l"
  by (auto simp: logsOf_def split: option.splits)

lemma addLogSeq_logs:
  assumes "logsOf cid s = Some l" and "length l \<le> 20"
  shows "\<exists>s'. addLogSeq cid xs s = Some s' \<and>
           logsOf cid s' = Some (take 20 (rev (map mkLog xs) @ l))"
  using assms
proof (induction xs arbitrary: s l)
  case Nil
  then show ?case by simp
next
  case (Cons x xs)
  obtain un ac tm where x: "x = (un, ac, tm)" by (cases x)
  from Cons.prems obtain c where c: "companies s (propKey cid) = Some c" "co_logs c = l"
    using logsOf_SomeD by blast
  with Cons.prems obtain s1 where s1: "addLog cid un ac tm s = Some s1"
      "logsOf cid s1 = Some (take 20 (mkLog (un, ac, tm) # l))"
    using addLog_logs[of s cid c un ac tm] by auto
  have "length (take 20 (mkLog (un, ac, tm) # l)) \<le> 20" by simp
  from Cons.IH[OF s1(2) this] obtain s' where s': "addLogSeq cid xs s1 = Some s'"
      "logsOf cid s' = Some (take 20 (rev (map mkLog xs) @ take 20 (mkLog (un, ac, tm) # l)))"
    by blast
  have "take 20 (rev (map mkLog xs) @ take 20 (mkLog (un, ac, tm) # l)) =
        take 20 (rev (map mkLog xs) @ mkLog (un, ac, tm) # l)"
    by (rule take_append_take)
  with s' s1 x show ?case by simp
qed

section \<open>The bounded location history\<close>

lemma push_shift_drop:
  assumes "length h \<le> 50"
  shows "(if length (h @ [p]) > 50 then tl (h @ [p]) else h @ [p]) =
         drop (length (h @ [p]) - 50) (h @ [p])"
proof (cases "length h = 50")
  case True
  then have "length (h @ [p]) - 50 = Suc 0" by simp
  then have "drop (length (h @ [p]) - 50) (h @ [p]) = tl (h @ [p])"
    by (simp only: drop_Suc drop_0)
  with True show ?thesis by simp
next
  case False
  with assms show ?thesis by simp
qed

lemma trackLocation_eq:
  assumes "currentUser s = Some cu" and "users s (s_username cu) = Some u"
    and "currentPosition s = Some pos"
    and "h = (case u_history u of None \<Rightarrow> [] | Some h \<Rightarrow> h)"
    and "length h \<le> 50"
  shows "trackLocation clk sid s =
           s\<lparr>users := (users s)(s_username cu \<mapsto>
                u\<lparr>u_history := Some (drop (length (h @ [mkPoint (pos, clk, sid)]) - 50)
                                         (h @ [mkPoint (pos, clk, sid)]))\<rparr>)\<rparr>"
proof -
  have e: "\<lparr>hp_lat = pos_lat pos, hp_lng = pos_lng pos, hp_time = clk_localeString clk,
            hp_siteId = sid\<rparr> = mkPoint (pos, clk, sid)"
    by (simp add: mkPoint_def)
  show ?thesis
    by (simp only: trackLocation_def Let_def assms(1,2,3) option.case e assms(4)[symmetric]
        push_shift_drop[OF assms(5)])
qed

lemma drop_drop_window:
  assumes "length h \<le> 50"
  shows "drop (length (drop (length (h @ [p]) - 50) (h @ [p]) @ ps) - 50)
              (drop (length (h @ [p]) - 50) (h @ [p]) @ ps) =
         drop (length (h @ p # ps) - 50) (h @ p # ps)"
proof (cases "length h = 50")
  case True
  then have a: "drop (length (h @ [p]) - 50) (h @ [p]) = tl h @ [p]"
    by (cases h) simp_all
  have b: "length (tl h @ [p] @ ps) - 50 = length ps" using True by simp
  have c: "length (h @ p # ps) - 50 = Suc (length ps)" using True by simp
  have "drop (Suc (length ps)) (h @ p # ps) = drop (length ps) (tl (h @ p # ps))"
    by (simp only: drop_Suc)
  also have "tl (h @ p # ps) = tl h @ [p] @ ps" using True by (cases h) simp_all
  finally show ?thesis using a b c by simp
next
  case False
  with assms show ?thesis by simp
qed

lemma trackLocationSeq_history:
  assumes "currentUser s = Some cu" and "users s (s_username cu) = Some u"
    and "u_history u = Some h" and "length h \<le> 50"
  shows "currentUser (trackLocationSeq xs s) = Some cu \<and>
         historyOf (s_username cu) (trackLocationSeq xs s) =
           Some (drop (length (h @ map mkPoint xs) - 50) (h @ map mkPoint xs))"
  using assms
proof (induction xs arbitrary: s u h)
  case Nil
  then show ?case by (simp add: historyOf_def)
next
  case (Cons x xs)
  obtain pos clk sid where x: "x = (pos, clk, sid)" by (cases x)
  let ?s0 = "s\<lparr>currentPosition := Some pos\<rparr>"
  let ?h1 = "drop (length (h @ [mkPoint x]) - 50) (h @ [mkPoint x])"
  let ?u1 = "u\<lparr>u_history := Some ?h1\<rparr>"
  let ?s1 = "trackLocation clk sid ?s0"
  have hh: "h = (case u_history u of None \<Rightarrow> [] | Some h \<Rightarrow> h)" using Cons.prems by simp
  have s1: "?s1 = ?s0\<lparr>users := (users ?s0)(s_username cu \<mapsto> ?u1)\<rparr>"
    unfolding x
    by (rule trackLocation_eq[where pos = pos]) (use Cons.prems hh in simp_all)
  have p1: "currentUser ?s1 = Some cu" using Cons.prems by (simp add: s1)
  have p2: "users ?s1 (s_username cu) = Some ?u1" by (simp add: s1)
  have p3: "u_history ?u1 = Some ?h1" by simp
  have p4: "length ?h1 \<le> 50" using Cons.prems by simp
  from Cons.IH[OF p1 p2 p3 p4]
  have "currentUser (trackLocationSeq xs ?s1) = Some cu \<and>
        historyOf (s_username cu) (trackLocationSeq xs ?s1) =
          Some (drop (length (?h1 @ map mkPoint xs) - 50) (?h1 @ map mkPoint xs))" .
  moreover have "drop (length (?h1 @ map mkPoint xs) - 50) (?h1 @ map mkPoint xs) =
      drop (length (h @ map mkPoint (x # xs)) - 50) (h @ map mkPoint (x # xs))"
    using drop_drop_window[OF Cons.prems(4), of "mkPoint x" "map mkPoint xs"] by simp
  ultimately show ?case by (simp add: x)
qed

lemma trackLocationSeq_from_empty:
  assumes "currentUser s = Some cu" and "users s (s_username cu) = Some u"
    and "u_history u = None \<or> u_history u = Some []" and "xs \<noteq> []"
  shows "historyOf (s_username cu) (trackLocationSeq xs s) =
           Some (drop (length xs - 50) (map mkPoint xs))"
proof -
  obtain pos clk sid ys where xs: "xs = (pos, clk, sid) # ys"
    using assms(4) by (cases xs) auto
  let ?s0 = "s\<lparr>currentPosition := Some pos\<rparr>"
  let ?u1 = "u\<lparr>u_history := Some [mkPoint (pos, clk, sid)]\<rparr>"
  let ?s1 = "trackLocation clk sid ?s0"
  have hh: "[] = (case u_history u of None \<Rightarrow> [] | Some h \<Rightarrow> h)"
    using assms(3) by auto
  have "?s1 = ?s0\<lparr>users := (users ?s0)(s_username cu \<mapsto>
                u\<lparr>u_history := Some (drop (length ([] @ [mkPoint (pos, clk, sid)]) - 50)
                                         ([] @ [mkPoint (pos, clk, sid)]))\<rparr>)\<rparr>"
    by (rule trackLocation_eq[where pos = pos]) (use assms hh in simp_all)
  then have s1: "?s1 = ?s0\<lparr>users := (users ?s0)(s_username cu \<mapsto> ?u1)\<rparr>" by simp
  have p1: "currentUser ?s1 = Some cu" using assms by (simp add: s1)
  have p2: "users ?s1 (s_username cu) = Some ?u1" by (simp add: s1)
  have p3: "u_history ?u1 = Some [mkPoint (pos, clk, sid)]" by simp
  have p4: "length [mkPoint (pos, clk, sid)] \<le> 50" by simp
  from trackLocationSeq_history[OF p1 p2 p3 p4, of ys]
  show ?thesis by (simp add: xs)
qed

section \<open>Check-in\<close>



lemma addLog_frame:
  "addLog cid un ac tm s = Some s' \<Longrightarrow>
   users s' = users s \<and> currentUser s' = currentUser s \<and>
   currentPosition s' = currentPosition s \<and> pendingUser s' = pendingUser s \<and>
   trackingInterval s' = trackingInterval s"
  by (auto simp: addLog_def Let_def split: option.splits)


lemma checkIn_no_position:
  "currentPosition s = None \<Longrightarrow> checkIn clk s = (Alerted GpsNotAvailable, s)"
  by (simp add: checkIn_def)

lemma checkIn_no_company:
  "currentPosition s = Some pos \<Longrightarrow> currentUser s = Some cu \<Longrightarrow>
   companies s (propKey (u_companyId (s_user cu))) = None \<Longrightarrow>
   checkIn clk s = (Alerted WorksiteDeletedOrNotFound, s)"
  by (simp add: checkIn_def)

lemma checkIn_no_site:
  "currentPosition s = Some pos \<Longrightarrow> currentUser s = Some cu \<Longrightarrow>
   users s (s_username cu) = Some u \<Longrightarrow>
   companies s (propKey (u_companyId (s_user cu))) = Some c \<Longrightarrow>
   findAssignedSite c u = None \<Longrightarrow>
   checkIn clk s = (Alerted WorksiteDeletedOrNotFound, s)"
  by (simp add: checkIn_def)

lemma checkIn_too_far:
  "currentPosition s = Some pos \<Longrightarrow> currentUser s = Some cu \<Longrightarrow>
   users s (s_username cu) = Some u \<Longrightarrow>
   companies s (propKey (u_companyId (s_user cu))) = Some c \<Longrightarrow>
   findAssignedSite c u = Some st \<Longrightarrow> distanceTo pos st > MAX_DISTANCE_METERS \<Longrightarrow>
   checkIn clk s = (Alerted (TooFarFromSite (site_name st) (js_round (distanceTo pos st))), s)"
  by (simp add: checkIn_def Let_def)




lemma bobAt_fields:
  "currentUser (bobAt la lo) = Some \<lparr>s_username = ''bob'', s_user = exampleBob\<rparr>"
  "currentPosition (bobAt la lo) = Some \<lparr>pos_lat = la, pos_lng = lo\<rparr>"
  "users (bobAt la lo) ''bob'' = Some exampleBob"
  "companies (bobAt la lo) ''ACME1234'' = Some exampleCompany"
  by (simp_all add: bobAt_def exampleDB_def)




text \<open>C6: from an empty company log, any number of \<open>addLog\<close> calls leaves the newest
  entries first and at most 20 of them; after 25 calls the log holds exactly the 20 latest
  entries, newest first, the 5 oldest gone.\<close>

theorem company_log_newest_first_capped:
  assumes "logsOf cid s = Some []"
  shows "\<exists>s' l. addLogSeq cid xs s = Some s' \<and> logsOf cid s' = Some l \<and>
           l = take 20 (rev (map mkLog xs)) \<and> length l = min (length xs) 20 \<and>
           (length xs = 25 \<longrightarrow> length l = 20 \<and> l = rev (map mkLog (drop 5 xs)))"
proof -
  have "length ([] :: log_entry list) \<le> 20" by simp
  from addLogSeq_logs[OF assms this, of xs]
  obtain s' where s': "addLogSeq cid xs s = Some s'"
      "logsOf cid s' = Some (take 20 (rev (map mkLog xs)))" by auto
  have "take 20 (rev (map mkLog xs)) = rev (drop (length (map mkLog xs) - 20) (map mkLog xs))"
    by (rule take_rev)
  then have "length xs = 25 \<Longrightarrow> take 20 (rev (map mkLog xs)) = rev (map mkLog (drop 5 xs))"
    by (simp add: drop_map)
  with s' show ?thesis by (auto simp: min_def)
qed

theorem company_log_newest_first_capped_witness:
  "logsOf (Some ''ACME1234'') exampleDB = Some [] \<and>
   (\<exists>s'. addLogSeq (Some ''ACME1234'') twentyFiveEntries exampleDB = Some s' \<and>
      logsOf (Some ''ACME1234'') s' = Some (rev (map mkLog (drop 5 twentyFiveEntries))))"
proof -
  have e: "logsOf (Some ''ACME1234'') exampleDB = Some []"
    by (simp add: logsOf_def exampleDB_def exampleCompany_def)
  have n: "length twentyFiveEntries = 25" by (simp add: twentyFiveEntries_def)
  from company_log_newest_first_capped[OF e, of twentyFiveEntries] n e
  show ?thesis by auto
qed

text \<open>C5: from an empty history, repeated \<open>trackLocation\<close> calls with a known position
  keep the most recent 50 points in recording order; after 60 calls the history is
  exactly the last 50 recorded points.\<close>

theorem history_keeps_last_fifty:
  assumes "currentUser s = Some cu" and "users s (s_username cu) = Some u"
    and "u_history u = None \<or> u_history u = Some []" and "xs \<noteq> []"
  shows "historyOf (s_username cu) (trackLocationSeq xs s) =
           Some (map mkPoint (drop (length xs - 50) xs)) \<and>
         (length xs = 60 \<longrightarrow>
            historyOf (s_username cu) (trackLocationSeq xs s) = Some (map mkPoint (drop 10 xs)) \<and>
            length (map mkPoint (drop 10 xs)) = 50)"
  using trackLocationSeq_from_empty[OF assms] by (simp add: drop_map)

theorem history_keeps_last_fifty_witness:
  "historyOf ''bob'' (trackLocationSeq sixtySamples (bobAt 0 0)) =
     Some (map mkPoint (drop 10 sixtySamples)) \<and>
   length (map mkPoint (drop 10 sixtySamples)) = 50"
proof -
  have h: "u_history exampleBob = None \<or> u_history exampleBob = Some []"
    by (simp add: exampleBob_def)
  have n: "length sixtySamples = 60" by (simp add: sixtySamples_def)
  then have ne: "sixtySamples \<noteq> []" by auto
  from history_keeps_last_fifty[where s = "bobAt 0 0" and u = exampleBob
      and cu = "\<lparr>s_username = ''bob'', s_user = exampleBob\<rparr>" and xs = sixtySamples] h ne n
  show ?thesis by (simp add: bobAt_fields)
qed

section \<open>Check-out and the geofence monitor\<close>



text \<open>The debug tool \<open>debugSetLocation\<close> is not a delivered sample: it runs
  \<open>checkGeofence\<close>, which logs the employee out and leaves the status as it is.\<close>

lemma debugSetLocation_logs_out:
  assumes "currentUser s = Some cu" and "u_role (s_user cu) = Employee"
    and "users s (s_username cu) = Some u" and "u_status u = Some CheckedIn"
    and "companies s (propKey (u_companyId (s_user cu))) = Some c"
    and "findAssignedSite c u = Some st"
    and "distanceTo \<lparr>pos_lat = la, pos_lng = lo\<rparr> st > MAX_DISTANCE_METERS"
  shows "debugSetLocation la lo s =
           (Alerted (DebugAutoLogout (site_name st)),
            s\<lparr>currentPosition := Some \<lparr>pos_lat = la, pos_lng = lo\<rparr>, currentUser := None\<rparr>)"
  using assms by (simp add: debugSetLocation_def checkGeofence_def logout_def)



section \<open>Employee removal\<close>

text \<open>C10: a confirmed \<open>removeEmployee\<close> filters the username out of the roster of the
  session's company and deletes the global user record of that name, whatever company or
  role that record has; every other user record and every other company is as before.\<close>

theorem removeEmployee_deletes_any_user:
  assumes "currentUser s = Some cu"
    and "companies s (propKey (u_companyId (s_user cu))) = Some c"
  shows "removeEmployee True username s =
           (Done,
            s\<lparr>companies := (companies s)(propKey (u_companyId (s_user cu)) \<mapsto>
                  c\<lparr>co_employees :=
                      filter (\<lambda>e. emp_username e \<noteq> username) (co_employees c)\<rparr>),
              users := (users s)(username := None)\<rparr>) \<and>
         users (snd (removeEmployee True username s)) username = None \<and>
         (\<forall>other. other \<noteq> username \<longrightarrow>
            users (snd (removeEmployee True username s)) other = users s other) \<and>
         (\<forall>k. k \<noteq> propKey (u_companyId (s_user cu)) \<longrightarrow>
            companies (snd (removeEmployee True username s)) k = companies s k)"
  using assms by (simp add: removeEmployee_def afterRefresh_def refreshDashboard_def)

theorem removeEmployee_deletes_any_user_witness:
  "users bossSession ''eve'' = Some (exampleBob\<lparr>u_companyId := Some ''OTHR0001''\<rparr>) \<and>
   fst (removeEmployee True ''eve'' bossSession) = Done \<and>
   users (snd (removeEmployee True ''eve'' bossSession)) ''eve'' = None \<and>
   users (snd (removeEmployee True ''eve'' bossSession)) ''bob'' = Some exampleBob \<and>
   fst (removeEmployee True ''boss'' bossSession) = Done \<and>
   users (snd (removeEmployee True ''boss'' bossSession)) ''boss'' = None"
proof -
  have cu: "currentUser bossSession = Some \<lparr>s_username = ''boss'', s_user = exampleBoss\<rparr>"
    by (simp add: bossSession_def)
  have c: "companies bossSession (propKey (u_companyId (s_user \<lparr>s_username = ''boss'', s_user = exampleBoss\<rparr>))) = Some exampleCompany"
    by (simp add: bossSession_def exampleDB_def exampleBoss_def)
  have u: "users bossSession ''eve'' = Some (exampleBob\<lparr>u_companyId := Some ''OTHR0001''\<rparr>)"
      "users bossSession ''bob'' = Some exampleBob"
    by (simp_all add: bossSession_def exampleDB_def)
  from removeEmployee_deletes_any_user[OF cu c, of "''eve''"]
    removeEmployee_deletes_any_user[OF cu c, of "''boss''"] u
  show ?thesis by simp
qed

section \<open>Login gating\<close>

lemma login_reaches_location_check:
  assumes "users s name = Some u" and "name \<noteq> []" and "u_verified u \<noteq> Some False"
    and "u_companyId u = Some cid" and "cid \<noteq> []"
    and "companyInput = [] \<or> companyInput = cid"
    and "\<not> truthy (u_passcode u) \<or> u_passcode u = Some passInput"
  shows "login name companyInput passInput s = loginLocationCheck name u s"
  using assms by (auto simp: login_def Let_def)

lemma loginSuccess_employee:
  "u_role u = Employee \<Longrightarrow>
   loginSuccess name u s = (Done, s\<lparr>currentUser := Some \<lparr>s_username = name, s_user = u\<rparr>\<rparr>)"
  by (simp add: loginSuccess_def afterRefresh_def refreshDashboard_def)

lemma loginLocationCheck_cases:
  assumes "u_role u = Employee"
  shows "loginLocationCheck name u s =
    (case currentPosition s of
       None \<Rightarrow> (Alerted DetectingLocation, s)
     | Some pos \<Rightarrow>
        (case companies s (propKey (u_companyId u)) of
           None \<Rightarrow> (Uncaught_TypeError, s)
         | Some c \<Rightarrow>
            (case findAssignedSite c u of
               None \<Rightarrow> (Alerted AssignedWorksiteNotFound, s)
             | Some st \<Rightarrow>
                (if distanceTo pos st > MAX_DISTANCE_METERS
                 then (Alerted (AccessDenied (js_round (distanceTo pos st)) (site_name st)), s)
                 else (Done, s\<lparr>currentUser := Some \<lparr>s_username = name, s_user = u\<rparr>\<rparr>)))))"
  using assms
  by (simp add: loginLocationCheck_def Let_def loginSuccess_employee split: option.splits)





section \<open>Referential integrity gaps\<close>

lemma checkIn_gap_reported:
  assumes "currentUser s = Some cu" and "users s (s_username cu) = Some u"
    and "currentPosition s = Some pos"
    and "\<forall>c. companies s (propKey (u_companyId (s_user cu))) = Some c \<longrightarrow>
           findAssignedSite c u = None"
  shows "checkIn clk s = (Alerted WorksiteDeletedOrNotFound, s)"
proof (cases "companies s (propKey (u_companyId (s_user cu)))")
  case None
  with assms show ?thesis by (simp add: checkIn_no_company[where pos = pos])
next
  case (Some c)
  with assms show ?thesis by (simp add: checkIn_no_site[where pos = pos and c = c])
qed

lemma login_site_gap_reported:
  assumes "users s name = Some u" and "name \<noteq> []" and "u_role u = Employee"
    and "u_verified u \<noteq> Some False"
    and "u_companyId u = Some cid" and "cid \<noteq> []"
    and "companyInput = [] \<or> companyInput = cid"
    and "\<not> truthy (u_passcode u) \<or> u_passcode u = Some passInput"
    and "currentPosition s = Some pos" and "companies s cid = Some c"
    and "findAssignedSite c u = None"
  shows "login name companyInput passInput s = (Alerted AssignedWorksiteNotFound, s)"
proof -
  have "login name companyInput passInput s = loginLocationCheck name u s"
    using assms by (intro login_reaches_location_check) auto
  then show ?thesis
    using assms by (simp add: loginLocationCheck_cases)
qed

lemma login_company_gap_uncaught:
  assumes "users s name = Some u" and "name \<noteq> []" and "u_role u = Employee"
    and "u_verified u \<noteq> Some False"
    and "u_companyId u = Some cid" and "cid \<noteq> []"
    and "companyInput = [] \<or> companyInput = cid"
    and "\<not> truthy (u_passcode u) \<or> u_passcode u = Some passInput"
    and "currentPosition s = Some pos" and "companies s cid = None"
  shows "login name companyInput passInput s = (Uncaught_TypeError, s)"
proof -
  have "login name companyInput passInput s = loginLocationCheck name u s"
    using assms by (intro login_reaches_location_check) auto
  then show ?thesis
    using assms by (simp add: loginLocationCheck_cases)
qed

text \<open>C9: in a store where the company of \<open>bob\<close> is missing, \<open>checkIn\<close> reports the missing
  worksite, while the employee login of \<open>bob\<close> dies of an uncaught \<open>TypeError\<close> instead of
  reporting; neither changes the state.\<close>

theorem login_missing_company_uncaught:
  "login ''bob'' [] [] orphanedDB = (Uncaught_TypeError, orphanedDB) \<and>
   checkIn exampleClock
      (orphanedDB\<lparr>currentUser := Some \<lparr>s_username = ''bob'', s_user = exampleBob\<rparr>\<rparr>) =
     (Alerted WorksiteDeletedOrNotFound,
      orphanedDB\<lparr>currentUser := Some \<lparr>s_username = ''bob'', s_user = exampleBob\<rparr>\<rparr>)"
  by (simp add: login_def loginLocationCheck_def checkIn_def orphanedDB_def exampleDB_def
      exampleBob_def Let_def)

section \<open>The invariant between status and check-in time\<close>

lemma storeInv_put:
  "storeInv s \<Longrightarrow> userInv u \<Longrightarrow> users s' = (users s)(name \<mapsto> u) \<Longrightarrow> storeInv s'"
  by (simp add: storeInv_def)

lemma storeInv_delete:
  "storeInv s \<Longrightarrow> users s' = (users s)(name := None) \<Longrightarrow> storeInv s'"
  by (simp add: storeInv_def)

lemma storeInv_lookup: "storeInv s \<Longrightarrow> users s name = Some u \<Longrightarrow> userInv u"
  by (simp add: storeInv_def)

lemma afterRefresh_snd: "snd (afterRefresh s) = s"
  by (simp add: afterRefresh_def)

lemma storeInv_trackLocation: "storeInv s \<Longrightarrow> storeInv (trackLocation clk sid s)"
  by (auto simp: storeInv_def userInv_def trackLocation_def Let_def split: option.splits)

lemma storeInv_addLog: "addLog cid un ac tm s = Some s' \<Longrightarrow> storeInv s' = storeInv s"
  using addLog_frame[of cid un ac tm s s'] by (simp add: storeInv_def)

lemma storeInv_checkOut:
  assumes "storeInv s"
  shows "storeInv (snd (checkOut reason clk s))"
proof (cases "currentUser s")
  case None
  with assms show ?thesis by (simp add: checkOut_def)
next
  case (Some cu)
  show ?thesis
  proof (cases "users s (s_username cu)")
    case None
    with Some assms show ?thesis by (simp add: checkOut_def)
  next
    case u: (Some u)
    let ?s1 = "s\<lparr>users := (users s)(s_username cu \<mapsto>
                  u\<lparr>u_status := Some CheckedOut, u_checkInTime := None\<rparr>),
                trackingInterval := None\<rparr>"
    have i1: "storeInv ?s1"
      using assms by (rule storeInv_put[where s = s]) (simp_all add: userInv_def)
    show ?thesis
    proof (cases "addLog (u_companyId (s_user cu)) (s_username cu) reason
                    (clk_localeTimeString clk) ?s1")
      case None
      with Some u i1 show ?thesis by (simp add: checkOut_def Let_def)
    next
      case s2: (Some s2)
      with Some u i1 storeInv_addLog[OF s2] show ?thesis
        by (simp add: checkOut_def Let_def afterRefresh_snd)
    qed
  qed
qed

lemma checkIn_reaches_addLog:
  assumes "currentPosition s = Some pos" and "currentUser s = Some cu"
    and "users s (s_username cu) = Some u"
    and "companies s (propKey (u_companyId (s_user cu))) = Some c"
    and "findAssignedSite c u = Some st" and "distanceTo pos st \<le> MAX_DISTANCE_METERS"
  shows "checkIn clk s =
    (case addLog (u_companyId (s_user cu)) (s_username cu) (''Check-In @ '' @ site_name st)
            (clk_localeTimeString clk)
            ((trackLocation clk (site_id st)
               (s\<lparr>users := (users s)(s_username cu \<mapsto>
                   u\<lparr>u_status := Some CheckedIn, u_checkInTime := Some (clk_now clk),
                     u_lastPing := Some (clk_now clk)\<rparr>)\<rparr>))
             \<lparr>trackingInterval := Some (site_id st)\<rparr>) of
       None \<Rightarrow> (Uncaught_TypeError,
                 (trackLocation clk (site_id st)
                   (s\<lparr>users := (users s)(s_username cu \<mapsto>
                       u\<lparr>u_status := Some CheckedIn, u_checkInTime := Some (clk_now clk),
                         u_lastPing := Some (clk_now clk)\<rparr>)\<rparr>))
                 \<lparr>trackingInterval := Some (site_id st)\<rparr>)
     | Some s4 \<Rightarrow> afterRefresh s4)"
  using assms by (simp add: checkIn_def Let_def)

lemma storeInv_checkIn:
  assumes "storeInv s"
  shows "storeInv (snd (checkIn clk s))"
proof (cases "currentPosition s")
  case None
  with assms show ?thesis by (simp add: checkIn_no_position)
next
  case (Some pos)
  show ?thesis
  proof (cases "currentUser s")
    case None
    with Some assms show ?thesis by (simp add: checkIn_def)
  next
    case cu: (Some cu)
    show ?thesis
    proof (cases "companies s (propKey (u_companyId (s_user cu)))")
      case None
      with Some cu assms show ?thesis by (simp add: checkIn_no_company[where pos = pos])
    next
      case c: (Some c)
      show ?thesis
      proof (cases "users s (s_username cu)")
        case None
        with Some cu c assms show ?thesis by (simp add: checkIn_def)
      next
        case u: (Some u)
        show ?thesis
        proof (cases "findAssignedSite c u")
          case None
          with Some cu c u assms show ?thesis
            by (simp add: checkIn_no_site[where pos = pos and c = c])
        next
          case st: (Some st)
          show ?thesis
          proof (cases "distanceTo pos st \<le> MAX_DISTANCE_METERS")
            case False
            then have "distanceTo pos st > MAX_DISTANCE_METERS" by simp
            from checkIn_too_far[OF Some cu u c st this, of clk] assms
            show ?thesis by simp
          next
            case True
            let ?s1 = "s\<lparr>users := (users s)(s_username cu \<mapsto>
                   u\<lparr>u_status := Some CheckedIn, u_checkInTime := Some (clk_now clk),
                     u_lastPing := Some (clk_now clk)\<rparr>)\<rparr>"
            let ?s3 = "(trackLocation clk (site_id st) ?s1)\<lparr>trackingInterval := Some (site_id st)\<rparr>"
            have "storeInv ?s1"
              using assms by (rule storeInv_put[where s = s]) (simp_all add: userInv_def)
            then have "storeInv (trackLocation clk (site_id st) ?s1)"
              by (rule storeInv_trackLocation)
            then have i3: "storeInv ?s3" by (simp add: storeInv_def)
            note eq = checkIn_reaches_addLog[OF Some cu u c st True, of clk]
            show ?thesis
            proof (cases "addLog (u_companyId (s_user cu)) (s_username cu)
                (''Check-In @ '' @ site_name st) (clk_localeTimeString clk) ?s3")
              case None
              with eq i3 show ?thesis by simp
            next
              case s4: (Some s4)
              from storeInv_addLog[OF s4] i3 have "storeInv s4" by simp
              with eq s4 show ?thesis by (simp add: afterRefresh_snd)
            qed
          qed
        qed
      qed
    qed
  qed
qed

lemma storeInv_monitorGeofence:
  assumes "storeInv s"
  shows "storeInv (snd (monitorGeofence clk s))"
proof -
  have "snd (monitorGeofence clk s) = s \<or>
        snd (monitorGeofence clk s) = snd (checkOut ''Geofence Exit'' clk s)"
    by (auto simp: monitorGeofence_def Let_def split: option.splits prod.splits outcome.splits)
  with assms storeInv_checkOut[OF assms] show ?thesis by auto
qed

lemma storeInv_positionSample:
  assumes "storeInv s"
  shows "storeInv (snd (positionSample clk la lo s))"
proof -
  let ?s1 = "s\<lparr>currentPosition := Some \<lparr>pos_lat = la, pos_lng = lo\<rparr>\<rparr>"
  have i: "storeInv ?s1" using assms by (simp add: storeInv_def)
  have "snd (positionSample clk la lo s) = ?s1 \<or>
        snd (positionSample clk la lo s) = snd (monitorGeofence clk ?s1)"
    by (simp add: positionSample_def Let_def split: option.splits)
  with i storeInv_monitorGeofence[OF i] show ?thesis by auto
qed

lemma storeInv_debugSetLocation:
  assumes "storeInv s"
  shows "storeInv (snd (debugSetLocation la lo s))"
proof -
  have "users (snd (debugSetLocation la lo s)) = users s"
    by (simp add: debugSetLocation_def checkGeofence_def logout_def split: option.splits)
  with assms show ?thesis by (simp add: storeInv_def)
qed

lemma storeInv_registerNewCompany:
  "storeInv s \<Longrightarrow> storeInv (snd (registerNewCompany cn mn cid code s))"
  by (simp add: registerNewCompany_def storeInv_def userInv_def)

lemma storeInv_registerNewEmployeeUser:
  "storeInv s \<Longrightarrow> storeInv (snd (registerNewEmployeeUser un em ph pc code s))"
  by (simp add: registerNewEmployeeUser_def storeInv_def userInv_def)

lemma storeInv_verifyAccount:
  assumes "storeInv s"
  shows "storeInv (snd (verifyAccount code s))"
proof -
  have "snd (verifyAccount code s) = s \<or>
        (\<exists>n u. users s n = Some u \<and>
           users (snd (verifyAccount code s)) = (users s)(n \<mapsto> u\<lparr>u_verified := Some True\<rparr>))"
    by (auto simp: verifyAccount_def Let_def afterRefresh_snd split: option.splits)
  then show ?thesis
  proof
    assume "snd (verifyAccount code s) = s"
    with assms show ?thesis by simp
  next
    assume "\<exists>n u. users s n = Some u \<and>
           users (snd (verifyAccount code s)) = (users s)(n \<mapsto> u\<lparr>u_verified := Some True\<rparr>)"
    then obtain n u where nu: "users s n = Some u"
        "users (snd (verifyAccount code s)) = (users s)(n \<mapsto> u\<lparr>u_verified := Some True\<rparr>)"
      by blast
    have "userInv (u\<lparr>u_verified := Some True\<rparr>)"
      using storeInv_lookup[OF assms nu(1)] by (simp add: userInv_def)
    from storeInv_put[OF assms this nu(2)] show ?thesis .
  qed
qed

lemma storeInv_login:
  assumes "storeInv s"
  shows "storeInv (snd (login un cid pc s))"
proof -
  have a: "users (snd (loginSuccess un u s)) = users s" for u
    by (simp add: loginSuccess_def afterRefresh_snd)
  have b: "users (snd (loginLocationCheck un u s)) = users s" for u
    by (simp add: loginLocationCheck_def Let_def a split: option.splits)
  have "users (snd (login un cid pc s)) = users s"
    by (simp add: login_def Let_def b split: option.splits)
  with assms show ?thesis by (simp add: storeInv_def)
qed

lemma storeInv_createSite:
  assumes "storeInv s"
  shows "storeInv (snd (createSite n clk s))"
proof -
  have "users (snd (createSite n clk s)) = users s"
    by (simp add: createSite_def Let_def afterRefresh_snd split: option.splits)
  with assms show ?thesis by (simp add: storeInv_def)
qed

lemma storeInv_updateSiteLocation:
  assumes "storeInv s"
  shows "storeInv (snd (updateSiteLocation sid ok s))"
proof -
  have "users (snd (updateSiteLocation sid ok s)) = users s"
    by (simp add: updateSiteLocation_def Let_def afterRefresh_snd split: option.splits)
  with assms show ?thesis by (simp add: storeInv_def)
qed

lemma addToRoster_users: "users (snd (addToRoster un ct sid cu s)) = users s"
  by (simp add: addToRoster_def Let_def afterRefresh_snd split: option.splits)

lemma registerEmployee_users:
  "snd (registerEmployee un ct sid pc s) = s \<or>
   (case users (snd (registerEmployee un ct sid pc s)) un of
      None \<Rightarrow> False
    | Some u' \<Rightarrow>
        users (snd (registerEmployee un ct sid pc s)) = (users s)(un \<mapsto> u') \<and>
        (case users s un of
           None \<Rightarrow> u_status u' = Some CheckedOut \<and> u_checkInTime u' = None
         | Some u \<Rightarrow> u_status u' = u_status u \<and> u_checkInTime u' = u_checkInTime u))"
proof (cases "currentUser s")
  case None
  then show ?thesis by (simp add: registerEmployee_def)
next
  case cu: (Some cu)
  show ?thesis
  proof (cases "un = [] \<or> ct = [] \<or> sid = []")
    case True
    with cu show ?thesis by (auto simp: registerEmployee_def)
  next
    case False
    then have ne: "un \<noteq> []" "ct \<noteq> []" "sid \<noteq> []" by simp_all
    show ?thesis
    proof (cases "users s un")
      case None
      with cu ne show ?thesis
        by (simp add: registerEmployee_def Let_def addToRoster_users)
    next
      case u: (Some u)
      show ?thesis
      proof (cases "u_companyId u")
        case None
        with cu ne u show ?thesis
          by (simp add: registerEmployee_def Let_def addToRoster_users)
      next
        case nn: (Some ucid)
        show ?thesis
        proof (cases "u_companyId u \<noteq> u_companyId (s_user cu)")
          case True
          with cu ne u nn show ?thesis by (simp add: registerEmployee_def Let_def)
        next
          case False
          with nn have eq: "u_companyId (s_user cu) = Some ucid" by simp
          show ?thesis
          proof (cases "companies s ucid")
            case None
            with cu ne u nn eq show ?thesis
              by (simp add: registerEmployee_def Let_def)
          next
            case (Some c)
            with cu ne u nn eq show ?thesis
              by (simp add: registerEmployee_def Let_def afterRefresh_snd)
          qed
        qed
      qed
    qed
  qed
qed

lemma storeInv_registerEmployee:
  assumes "storeInv s"
  shows "storeInv (snd (registerEmployee un ct sid pc s))"
proof -
  from registerEmployee_users[of un ct sid pc s]
  show ?thesis
  proof
    assume "snd (registerEmployee un ct sid pc s) = s"
    with assms show ?thesis by simp
  next
    assume "case users (snd (registerEmployee un ct sid pc s)) un of
      None \<Rightarrow> False
    | Some u' \<Rightarrow>
        users (snd (registerEmployee un ct sid pc s)) = (users s)(un \<mapsto> u') \<and>
        (case users s un of
           None \<Rightarrow> u_status u' = Some CheckedOut \<and> u_checkInTime u' = None
         | Some u \<Rightarrow> u_status u' = u_status u \<and> u_checkInTime u' = u_checkInTime u)"
    then obtain u' where
      eq: "users (snd (registerEmployee un ct sid pc s)) = (users s)(un \<mapsto> u')"
      and st: "case users s un of
         None \<Rightarrow> u_status u' = Some CheckedOut \<and> u_checkInTime u' = None
       | Some u \<Rightarrow> u_status u' = u_status u \<and> u_checkInTime u' = u_checkInTime u"
      by (auto split: option.splits)
    have "userInv u'"
    proof (cases "users s un")
      case None
      with st show ?thesis by (simp add: userInv_def)
    next
      case (Some u)
      with st storeInv_lookup[OF assms Some] show ?thesis by (simp add: userInv_def)
    qed
    from storeInv_put[OF assms this eq] show ?thesis .
  qed
qed

lemma storeInv_removeEmployee:
  assumes "storeInv s"
  shows "storeInv (snd (removeEmployee ok un s))"
proof -
  have "snd (removeEmployee ok un s) = s \<or>
        users (snd (removeEmployee ok un s)) = (users s)(un := None)"
    by (simp add: removeEmployee_def afterRefresh_snd split: option.splits)
  then show ?thesis
  proof
    assume "snd (removeEmployee ok un s) = s"
    with assms show ?thesis by simp
  next
    assume "users (snd (removeEmployee ok un s)) = (users s)(un := None)"
    from storeInv_delete[OF assms this] show ?thesis .
  qed
qed

lemma storeInv_step:
  assumes "storeInv s"
  shows "storeInv (snd (step clk c s))"
proof (cases c)
  case Logout
  with assms show ?thesis by (simp add: logout_def storeInv_def)
next
  case (LoginGpsFix la lo)
  with assms show ?thesis by (simp add: loginGpsFix_def storeInv_def)
next
  case TrackingTick
  with assms storeInv_trackLocation[OF assms] show ?thesis
    by (simp add: trackingTick_def split: option.splits)
qed (use assms in \<open>simp_all add: storeInv_registerNewCompany storeInv_registerNewEmployeeUser
      storeInv_verifyAccount storeInv_login storeInv_positionSample useMockLocation_def
      storeInv_debugSetLocation storeInv_createSite storeInv_updateSiteLocation
      storeInv_registerEmployee storeInv_removeEmployee storeInv_checkIn storeInv_checkOut\<close>)

lemma storeInv_run: "storeInv s \<Longrightarrow> storeInv (run cs s)"
proof (induction cs arbitrary: s)
  case Nil
  then show ?case by simp
next
  case (Cons x cs)
  obtain clk c where x: "x = (clk, c)" by (cases x)
  from Cons.IH[OF storeInv_step[OF Cons.prems, of clk c]] x show ?case by simp
qed

lemma storeInv_defaultApp: "storeInv defaultApp"
  by (simp add: storeInv_def defaultApp_def userInv_def)

lemma storeInv_exampleDB: "storeInv exampleDB"
  by (simp add: storeInv_def exampleDB_def userInv_def exampleBob_def exampleBoss_def)

text \<open>C4: every operation (company and employee registration, manager registration,
  login, verification, check-in, check-out, position samples with the forced check-out,
  employee removal and the rest) keeps, for every user record, that a checked-in user has
  a check-in time and a checked-out user has none; so does every sequence of operations,
  in particular from a fresh installation.\<close>

theorem status_checkInTime_invariant:
  assumes "storeInv s"
  shows "storeInv (snd (step clk c s)) \<and> storeInv (run cs s) \<and> storeInv (run cs defaultApp)"
  using storeInv_step[OF assms] storeInv_run[OF assms] storeInv_run[OF storeInv_defaultApp]
  by simp

theorem status_checkInTime_invariant_witness:
  "storeInv exampleDB \<and>
   storeInv (snd (step exampleClock CheckIn (bobAt 0 0))) \<and>
   storeInv (run [(exampleClock, Login ''bob'' [] []), (exampleClock, CheckIn),
                  (exampleClock, PositionSample 0 1), (exampleClock, RemoveEmployee True ''bob'')]
             (bobAt 0 0))"
proof -
  have "storeInv (bobAt 0 0)"
    using storeInv_exampleDB by (simp add: storeInv_def bobAt_def)
  from status_checkInTime_invariant[OF this] storeInv_exampleDB
  show ?thesis by blast
qed

end
